theory Spec2Isabelle
  imports Main "HOL-Library.FSet"
begin

section \<open>Data model of \<open>rest_framework_nested/viewsets.py\<close>\<close>

text \<open>
  What the code of \<open>get_queryset\<close> itself raises: \<open>KeyError\<close>, carrying the name, from
  \<open>self.kwargs[query_param]\<close> on a name that is not a path parameter, and \<open>TypeError\<close>,
  from \<open>functools.reduce\<close> over an empty sequence without an initial value and from
  storing under an unhashable key (a \<open>set\<close>) in \<open>orm_kwargs_filters\<close>.
\<close>

datatype py_error = KeyError string | TypeError

text \<open>
  An exception that leaves \<open>get_queryset\<close> is one of its own or one that the query
  engine's \<open>filter\<close> raised, which \<open>get_queryset\<close> does not catch.
\<close>

datatype 'x raised = Own py_error | Engine 'x

text \<open>
  A value of \<open>parent_lookup_kwargs\<close>: a field-path string, a tuple of field-path
  strings, or a set of field-path strings. The source distinguishes them by
  \<open>isinstance(field_name, tuple)\<close> only.
\<close>

datatype field_ref =
    FieldStr string
  | FieldTuple "string list"
  | FieldSet "string fset"

text \<open>
  \<open>parent_lookup_kwargs\<close> is a dict, iterated with \<open>.items()\<close> in insertion order:
  an association list. \<open>self.kwargs\<close> (the path parameters of the request) and
  \<open>orm_kwargs_filters\<close> are dicts that are only stored into and looked up by key, the
  second being passed on as keyword arguments: maps.
\<close>

type_synonym lookup_mapping = "(string \<times> field_ref) list"

type_synonym path_params = "string \<rightharpoonup> string"

type_synonym kwargs_filters = "string \<rightharpoonup> string"

text \<open>
  The query objects the loop builds: \<open>Q(**{field: value})\<close> and \<open>operator.or_\<close> of
  two of them.
\<close>

datatype q = Q string string | Q_or q q

text \<open>
  The query engine is an external collaborator, and what
  \<open>queryset.filter(*args, **kwargs)\<close> returns or raises is its business: which records,
  how often each, and which field paths and values it rejects. The method is a
  parameter of the model, from a queryset, the positional \<open>Q\<close> objects and the keyword
  equalities to an exception of the engine or a queryset.
\<close>

type_synonym ('qs, 'x) queryset_filter = "'qs \<Rightarrow> q list \<Rightarrow> kwargs_filters \<Rightarrow> 'x + 'qs"

text \<open>
  What \<open>get_queryset\<close> reads from \<open>self\<close>: the queryset of the superclass,
  \<open>getattr(self, 'parent_lookup_kwargs', None)\<close>,
  \<open>getattr(self.get_serializer_class(), 'parent_lookup_kwargs', None)\<close> and
  \<open>self.kwargs\<close>.
\<close>

record 'qs viewset =
  base_queryset :: 'qs
  parent_lookup_kwargs :: "lookup_mapping option"
  serializer_parent_lookup_kwargs :: "lookup_mapping option"
  kwargs :: path_params

section \<open>The operations\<close>

text \<open>\<open>self.kwargs[query_param]\<close>.\<close>

definition kwargs_getitem :: "path_params \<Rightarrow> string \<Rightarrow> py_error + string" where
  "kwargs_getitem kw query_param =
     (case kw query_param of None \<Rightarrow> Inl (KeyError query_param) | Some v \<Rightarrow> Inr v)"

text \<open>
  The generator \<open>(Q(**{field: self.kwargs[query_param]}) for field in field_name)\<close>, as
  \<open>reduce\<close> consumes it: the lookup happens once per field, so not at all for an empty
  tuple.
\<close>

fun q_fields :: "path_params \<Rightarrow> string \<Rightarrow> string list \<Rightarrow> py_error + q list" where
  "q_fields kw query_param [] = Inr []"
| "q_fields kw query_param (field # field_names) =
     (case kwargs_getitem kw query_param of
        Inl e \<Rightarrow> Inl e
      | Inr v \<Rightarrow>
          (case q_fields kw query_param field_names of
             Inl e \<Rightarrow> Inl e
           | Inr qs \<Rightarrow> Inr (Q field v # qs)))"

text \<open>
  \<open>functools.reduce(operator.or_, q_fields)\<close>: a left fold from the first element; with
  no element and no initial value it raises \<open>TypeError\<close>.
\<close>

fun reduce_or :: "q list \<Rightarrow> py_error + q" where
  "reduce_or [] = Inl TypeError"
| "reduce_or (x # xs) = Inr (foldl Q_or x xs)"

text \<open>
  The \<open>for\<close> loop over \<open>parent_lookup_kwargs.items()\<close>, with the two accumulators
  \<open>orm_arg_filters\<close> (a list, appended to) and \<open>orm_kwargs_filters\<close> (a dict, stored
  into by field name). In the \<open>else\<close> branch the right-hand side
  \<open>self.kwargs[query_param]\<close> is evaluated before the store, and the store hashes
  \<open>field_name\<close>, which a \<open>set\<close> does not allow.
\<close>

fun orm_filters ::
  "path_params \<Rightarrow> lookup_mapping \<Rightarrow> q list \<Rightarrow> kwargs_filters
     \<Rightarrow> py_error + (q list \<times> kwargs_filters)" where
  "orm_filters kw [] orm_arg_filters orm_kwargs_filters =
     Inr (orm_arg_filters, orm_kwargs_filters)"
| "orm_filters kw ((query_param, field_name) # rest) orm_arg_filters orm_kwargs_filters =
     (case field_name of
        FieldTuple field_names \<Rightarrow>
          (case q_fields kw query_param field_names of
             Inl e \<Rightarrow> Inl e
           | Inr qs \<Rightarrow>
               (case reduce_or qs of
                  Inl e \<Rightarrow> Inl e
                | Inr arg_filter \<Rightarrow>
                    orm_filters kw rest (orm_arg_filters @ [arg_filter]) orm_kwargs_filters))
      | FieldStr field \<Rightarrow>
          (case kwargs_getitem kw query_param of
             Inl e \<Rightarrow> Inl e
           | Inr v \<Rightarrow>
               orm_filters kw rest orm_arg_filters (orm_kwargs_filters(field \<mapsto> v)))
      | FieldSet field_names \<Rightarrow>
          (case kwargs_getitem kw query_param of
             Inl e \<Rightarrow> Inl e
           | Inr v \<Rightarrow> Inl TypeError))"

text \<open>Python truthiness of the attribute: \<open>None\<close> and the empty dict are false.\<close>

definition truthy :: "lookup_mapping option \<Rightarrow> bool" where
  "truthy plk = (case plk of None \<Rightarrow> False | Some d \<Rightarrow> d \<noteq> [])"

text \<open>Lines 15 to 19: the viewset's attribute, else the serializer class's.\<close>

definition resolve_parent_lookup_kwargs :: "'qs viewset \<Rightarrow> lookup_mapping option" where
  "resolve_parent_lookup_kwargs self =
     (let plk = parent_lookup_kwargs self
      in if \<not> truthy plk then serializer_parent_lookup_kwargs self else plk)"

text \<open>
  \<open>return queryset.filter(...)\<close>: the queryset the engine returns is returned, an
  exception it raises leaves \<open>get_queryset\<close> as it is.
\<close>

definition propagate :: "'x + 'qs \<Rightarrow> 'x raised + 'qs" where
  "propagate res = (case res of Inl x \<Rightarrow> Inl (Engine x) | Inr queryset \<Rightarrow> Inr queryset)"

definition get_queryset ::
  "('qs, 'x) queryset_filter \<Rightarrow> 'qs viewset \<Rightarrow> 'x raised + 'qs" where
  "get_queryset queryset_filter self =
     (let queryset = base_queryset self;
          plk = resolve_parent_lookup_kwargs self
      in case plk of
           None \<Rightarrow> Inr queryset
         | Some d \<Rightarrow>
             if d \<noteq> [] then
               (case orm_filters (kwargs self) d [] Map.empty of
                  Inl e \<Rightarrow> Inl (Own e)
                | Inr (orm_arg_filters, orm_kwargs_filters) \<Rightarrow>
                    propagate (queryset_filter queryset orm_arg_filters orm_kwargs_filters))
             else Inr queryset)"

section \<open>Reading the filter terms\<close>

text \<open>
  Whatever an equality \<open>field == value\<close> means on a row the engine tests, \<open>|\<close> is the
  disjunction of its two sides.
\<close>

type_synonym 'r field_equals = "'r \<Rightarrow> string \<Rightarrow> string \<Rightarrow> bool"

fun q_holds :: "'r field_equals \<Rightarrow> 'r \<Rightarrow> q \<Rightarrow> bool" where
  "q_holds eq r (Q field v) = eq r field v"
| "q_holds eq r (Q_or a b) = (q_holds eq r a \<or> q_holds eq r b)"


text \<open>The field references the loop can turn into a filter term.\<close>

fun supported :: "field_ref \<Rightarrow> bool" where
  "supported (FieldStr field) = True"
| "supported (FieldTuple field_names) = (field_names \<noteq> [])"
| "supported (FieldSet field_names) = False"


section \<open>The loop in closed form\<close>

text \<open>
  The error one entry raises, the first error of the loop, and the two accumulators
  after a loop that raised nothing: one disjunction per tuple entry, one equality per
  single-field entry.
\<close>

fun entry_error :: "path_params \<Rightarrow> string \<times> field_ref \<Rightarrow> py_error option" where
  "entry_error kw (query_param, FieldStr field) =
     (case kw query_param of None \<Rightarrow> Some (KeyError query_param) | Some v \<Rightarrow> None)"
| "entry_error kw (query_param, FieldTuple []) = Some TypeError"
| "entry_error kw (query_param, FieldTuple (g # gs)) =
     (case kw query_param of None \<Rightarrow> Some (KeyError query_param) | Some v \<Rightarrow> None)"
| "entry_error kw (query_param, FieldSet field_names) =
     (case kw query_param of None \<Rightarrow> Some (KeyError query_param) | Some v \<Rightarrow> Some TypeError)"

fun loop_error :: "path_params \<Rightarrow> lookup_mapping \<Rightarrow> py_error option" where
  "loop_error kw [] = None"
| "loop_error kw (entry # m) =
     (case entry_error kw entry of Some e \<Rightarrow> Some e | None \<Rightarrow> loop_error kw m)"

fun arg_terms :: "path_params \<Rightarrow> lookup_mapping \<Rightarrow> q list" where
  "arg_terms kw [] = []"
| "arg_terms kw ((query_param, FieldTuple (g # gs)) # m) =
     (case kw query_param of
        None \<Rightarrow> arg_terms kw m
      | Some v \<Rightarrow> foldl Q_or (Q g v) (map (\<lambda>h. Q h v) gs) # arg_terms kw m)"
| "arg_terms kw (entry # m) = arg_terms kw m"

fun kwargs_terms :: "path_params \<Rightarrow> lookup_mapping \<Rightarrow> (string \<times> string) list" where
  "kwargs_terms kw [] = []"
| "kwargs_terms kw ((query_param, FieldStr field) # m) =
     (case kw query_param of
        None \<Rightarrow> kwargs_terms kw m
      | Some v \<Rightarrow> (field, v) # kwargs_terms kw m)"
| "kwargs_terms kw (entry # m) = kwargs_terms kw m"

text \<open>
  The stores \<open>orm_kwargs_filters[field] = v\<close> of a list of items, one after the other:
  a later store under the same field replaces the earlier value.
\<close>

definition setitems :: "(string \<times> string) list \<Rightarrow> kwargs_filters \<Rightarrow> kwargs_filters" where
  "setitems items d = fold (\<lambda>(field, v) d. d(field \<mapsto> v)) items d"

section \<open>A contract of the query engine\<close>

text \<open>
  A contract a query engine can meet, with \<open>rows\<close> the records a queryset yields: the
  records of a filtered queryset are those records of the queryset that the terms
  select, each any number of times, and \<open>filter\<close> accepts again, on its result, the
  terms it accepted.
\<close>

definition engine_selects ::
  "('qs, 'x) queryset_filter \<Rightarrow> ('qs \<Rightarrow> 'r list) \<Rightarrow> (q list \<Rightarrow> kwargs_filters \<Rightarrow> 'r \<Rightarrow> bool) \<Rightarrow> bool"
  where
  "engine_selects queryset_filter rows selected =
     (\<forall>queryset args kws filtered.
        queryset_filter queryset args kws = Inr filtered \<longrightarrow>
          set (rows filtered) = {r \<in> set (rows queryset). selected args kws r}
          \<and> (\<exists>again. queryset_filter filtered args kws = Inr again))"

section \<open>A query engine for the examples\<close>

text \<open>
  A small engine in the manner of the one the repository's tests run on, for the
  examples only. A model has typed lookups: those of the record itself and those through
  its one many-to-many relation. An integer lookup accepts decimal digits and compares
  numbers, and \<open>filter\<close> raises \<open>ValueError\<close> on any other value and \<open>FieldError\<close> on a
  field path the model does not have. A filter that names a lookup through the
  many-to-many relation joins it: a record is tested once per related object, all terms
  on the same joined row, and returned once per joined row that passes.
\<close>

datatype engine_error = ValueError | FieldError

datatype field_type = IntegerField | CharField

record model =
  own_lookups :: "(string \<times> field_type) list"
  related_lookups :: "(string \<times> field_type) list"

text \<open>A record: its own values and, per related object, the values through the relation.\<close>

type_synonym model_instance = "(string \<times> string) list \<times> (string \<times> string) list list"

fun digit_value :: "char \<Rightarrow> nat option" where
  "digit_value c =
     (if c = CHR ''0'' then Some 0 else if c = CHR ''1'' then Some 1
      else if c = CHR ''2'' then Some 2 else if c = CHR ''3'' then Some 3
      else if c = CHR ''4'' then Some 4 else if c = CHR ''5'' then Some 5
      else if c = CHR ''6'' then Some 6 else if c = CHR ''7'' then Some 7
      else if c = CHR ''8'' then Some 8 else if c = CHR ''9'' then Some 9
      else None)"

fun digits_value :: "nat \<Rightarrow> string \<Rightarrow> nat option" where
  "digits_value acc [] = Some acc"
| "digits_value acc (c # cs) =
     (case digit_value c of None \<Rightarrow> None | Some d \<Rightarrow> digits_value (10 * acc + d) cs)"

definition int_of_string :: "string \<Rightarrow> nat option" where
  "int_of_string s = (if s = [] then None else digits_value 0 s)"

definition lookup_type :: "model \<Rightarrow> string \<Rightarrow> field_type option" where
  "lookup_type M field = map_of (own_lookups M @ related_lookups M) field"

definition term_error :: "model \<Rightarrow> string \<times> string \<Rightarrow> engine_error option" where
  "term_error M t =
     (case lookup_type M (fst t) of
        None \<Rightarrow> Some FieldError
      | Some IntegerField \<Rightarrow> (if int_of_string (snd t) = None then Some ValueError else None)
      | Some CharField \<Rightarrow> None)"

fun terms_error :: "model \<Rightarrow> (string \<times> string) list \<Rightarrow> engine_error option" where
  "terms_error M [] = None"
| "terms_error M (t # ts) =
     (case term_error M t of Some x \<Rightarrow> Some x | None \<Rightarrow> terms_error M ts)"

fun leaves :: "q \<Rightarrow> (string \<times> string) list" where
  "leaves (Q field v) = [(field, v)]"
| "leaves (Q_or a b) = leaves a @ leaves b"

text \<open>The keyword equalities on lookups of the model, as a list.\<close>

definition kwargs_items :: "model \<Rightarrow> kwargs_filters \<Rightarrow> (string \<times> string) list" where
  "kwargs_items M kws =
     concat (map (\<lambda>field. case kws field of None \<Rightarrow> [] | Some v \<Rightarrow> [(field, v)])
       (map fst (own_lookups M @ related_lookups M)))"

definition check_error :: "model \<Rightarrow> q list \<Rightarrow> kwargs_filters \<Rightarrow> engine_error option" where
  "check_error M args kws =
     (case terms_error M (concat (map leaves args)) of
        Some x \<Rightarrow> Some x
      | None \<Rightarrow>
          if \<not> dom kws \<subseteq> set (map fst (own_lookups M @ related_lookups M))
          then Some FieldError
          else terms_error M (kwargs_items M kws))"

definition model_equals :: "model \<Rightarrow> (string \<times> string) list field_equals" where
  "model_equals M joined field v =
     (case lookup_type M field of
        None \<Rightarrow> False
      | Some IntegerField \<Rightarrow>
          (case map_of joined field of
             None \<Rightarrow> False
           | Some c \<Rightarrow> int_of_string c = int_of_string v)
      | Some CharField \<Rightarrow> map_of joined field = Some v)"

definition uses_related :: "model \<Rightarrow> q list \<Rightarrow> kwargs_filters \<Rightarrow> bool" where
  "uses_related M args kws =
     (list_ex (\<lambda>t. fst t \<in> set (map fst (related_lookups M))) (concat (map leaves args))
      \<or> list_ex (\<lambda>field. kws field \<noteq> None) (map fst (related_lookups M)))"

definition joined_rows ::
  "model \<Rightarrow> q list \<Rightarrow> kwargs_filters \<Rightarrow> model_instance \<Rightarrow> (string \<times> string) list list" where
  "joined_rows M args kws i =
     (if uses_related M args kws \<and> snd i \<noteq> []
      then map (\<lambda>related. fst i @ related) (snd i)
      else [fst i])"

definition matches :: "model \<Rightarrow> q list \<Rightarrow> kwargs_filters \<Rightarrow> model_instance \<Rightarrow> nat" where
  "matches M args kws i =
     length
       (filter
          (\<lambda>joined.
             list_all (q_holds (model_equals M) joined) args
             \<and> list_all (\<lambda>t. model_equals M joined (fst t) (snd t)) (kwargs_items M kws))
          (joined_rows M args kws i))"

definition model_filter :: "model \<Rightarrow> (model_instance list, engine_error) queryset_filter" where
  "model_filter M queryset args kws =
     (case check_error M args kws of
        Some x \<Rightarrow> Inl x
      | None \<Rightarrow> Inr (concat (map (\<lambda>i. replicate (matches M args kws i) i) queryset)))"

text \<open>
  The models and records of the tests: children with their parent's key, and
  grandchildren related to roots by \<open>prefered_id\<close> and through the many-to-many \<open>roots\<close>;
  the last grandchild prefers root 1 and has the roots 2 and 3.
\<close>

definition child_model :: model where
  "child_model =
     \<lparr>own_lookups = [(''name'', CharField), (''parent__pk'', IntegerField)],
      related_lookups = []\<rparr>"

definition grand_child_model :: model where
  "grand_child_model =
     \<lparr>own_lookups = [(''name'', CharField), (''prefered_id'', IntegerField)],
      related_lookups = [(''roots__id'', IntegerField), (''roots__name'', CharField)]\<rparr>"

definition child_a :: model_instance where
  "child_a = ([(''name'', ''root-1-child-a''), (''parent__pk'', ''1'')], [])"

definition child_b :: model_instance where
  "child_b = ([(''name'', ''root-2-child-b''), (''parent__pk'', ''2'')], [])"

definition grand_child_first :: model_instance where
  "grand_child_first = ([(''name'', ''first''), (''prefered_id'', ''1'')], [])"

definition grand_child_second :: model_instance where
  "grand_child_second =
     ([(''name'', ''second'')], [[(''roots__id'', ''1''), (''roots__name'', ''root-1'')]])"

definition grand_child_fourth :: model_instance where
  "grand_child_fourth =
     ([(''name'', ''fourth''), (''prefered_id'', ''1'')],
      [[(''roots__id'', ''2''), (''roots__name'', ''root-2'')],
       [(''roots__id'', ''3''), (''roots__name'', ''root-3'')]])"

section \<open>Properties of the loop\<close>

text \<open>
  With the parameter present, the generator yields one \<open>Q\<close> per field, and the
  left fold of \<open>|\<close> over them holds exactly when one of the equalities does.
\<close>

lemma q_fields_present:
  "kw p = Some v \<Longrightarrow> q_fields kw p gs = Inr (map (\<lambda>h. Q h v) gs)"
  by (induction gs) (simp_all add: kwargs_getitem_def)



text \<open>
  The loop either raises its first error or returns the accumulators extended by the
  terms of the entries, whatever the accumulators were; \<open>get_queryset\<close> then makes one
  call of the engine's \<open>filter\<close> with them.
\<close>

lemma orm_filters_closed_form:
  "orm_filters kw m args kws =
     (case loop_error kw m of
        Some e \<Rightarrow> Inl e
      | None \<Rightarrow> Inr (args @ arg_terms kw m, setitems (kwargs_terms kw m) kws))"
proof (induction m arbitrary: args kws)
  case Nil
  show ?case by (simp add: setitems_def)
next
  case (Cons entry m)
  obtain p fr where entry: "entry = (p, fr)" by (cases entry)
  show ?case
  proof (cases fr)
    case (FieldStr field)
    with entry Cons show ?thesis
      by (cases "kw p") (simp_all add: kwargs_getitem_def setitems_def split: option.split)
  next
    case (FieldTuple gs)
    show ?thesis
    proof (cases gs)
      case Nil
      with entry FieldTuple show ?thesis by simp
    next
      case (Cons g gs')
      with entry FieldTuple Cons.IH show ?thesis
        by (cases "kw p")
          (simp_all add: kwargs_getitem_def q_fields_present split: option.split)
    qed
  next
    case (FieldSet s)
    with entry show ?thesis
      by (cases "kw p") (simp_all add: kwargs_getitem_def)
  qed
qed

lemma resolve_cases:
  "resolve_parent_lookup_kwargs self =
     (case parent_lookup_kwargs self of
        None \<Rightarrow> serializer_parent_lookup_kwargs self
      | Some d \<Rightarrow> if d = [] then serializer_parent_lookup_kwargs self else Some d)"
  by (simp add: resolve_parent_lookup_kwargs_def truthy_def Let_def split: option.splits)

lemma get_queryset_unresolved:
  "resolve_parent_lookup_kwargs self = None \<Longrightarrow> get_queryset flt self = Inr (base_queryset self)"
  by (simp add: get_queryset_def Let_def)

lemma get_queryset_empty:
  "resolve_parent_lookup_kwargs self = Some [] \<Longrightarrow> get_queryset flt self = Inr (base_queryset self)"
  by (simp add: get_queryset_def Let_def)

lemma get_queryset_closed_form:
  assumes "resolve_parent_lookup_kwargs self = Some m" and "m \<noteq> []"
  shows "get_queryset flt self =
     (case loop_error (kwargs self) m of
        Some e \<Rightarrow> Inl (Own e)
      | None \<Rightarrow>
          propagate (flt (base_queryset self) (arg_terms (kwargs self) m)
                       (setitems (kwargs_terms (kwargs self) m) Map.empty)))"
  using assms
  by (simp add: get_queryset_def orm_filters_closed_form Let_def split: option.splits)

lemma get_queryset_cong:
  assumes "base_queryset a = base_queryset b"
    and "resolve_parent_lookup_kwargs a = resolve_parent_lookup_kwargs b"
    and "kwargs a = kwargs b"
  shows "get_queryset flt a = get_queryset flt b"
  using assms by (simp add: get_queryset_def Let_def split: option.splits)


lemma loop_error_KeyError:
  "loop_error kw m = Some (KeyError p) \<Longrightarrow> p \<in> fst ` set m \<and> kw p = None"
proof (induction m)
  case Nil
  then show ?case by simp
next
  case (Cons entry m)
  obtain p' fr where entry: "entry = (p', fr)" by (cases entry)
  show ?case
  proof (cases fr)
    case (FieldStr field)
    with entry Cons show ?thesis by (cases "kw p'") auto
  next
    case (FieldTuple gs)
    with entry Cons show ?thesis by (cases gs; cases "kw p'") auto
  next
    case (FieldSet s)
    with entry Cons show ?thesis by (cases "kw p'") auto
  qed
qed

lemma loop_error_supported:
  assumes "list_all supported (map snd m)"
  shows "loop_error kw m = map_option KeyError (find (\<lambda>p. kw p = None) (map fst m))"
  using assms
proof (induction m)
  case Nil
  show ?case by simp
next
  case (Cons entry m)
  obtain p fr where entry: "entry = (p, fr)" by (cases entry)
  show ?case
  proof (cases fr)
    case (FieldStr field)
    with entry Cons show ?thesis by (cases "kw p") auto
  next
    case (FieldTuple gs)
    with entry Cons show ?thesis by (cases gs; cases "kw p") auto
  next
    case (FieldSet s)
    with entry Cons.prems show ?thesis by simp
  qed
qed



lemma get_queryset_KeyError:
  assumes "resolve_parent_lookup_kwargs self = Some m"
  shows "(get_queryset flt self = Inl (Own (KeyError p))) = (loop_error (kwargs self) m = Some (KeyError p))"
proof (cases "m = []")
  case True
  with assms show ?thesis by (simp add: get_queryset_empty)
next
  case False
  show ?thesis
    by (auto simp: get_queryset_closed_form [OF assms False] propagate_def
        split: option.splits sum.splits)
qed










text \<open>
  The engine of the examples meets the contract: it returns a record once per joined
  row that passes, so the records of its result are the records with such a row.
\<close>

lemmas engine_defs = model_filter_def check_error_def kwargs_items_def term_error_def lookup_type_def
  matches_def joined_rows_def uses_related_def model_equals_def int_of_string_def
  child_model_def grand_child_model_def child_a_def child_b_def grand_child_first_def
  grand_child_second_def grand_child_fourth_def

lemma in_concat_replicate:
  "x \<in> set (concat (map (\<lambda>i. replicate (n i) i) xs)) \<longleftrightarrow> x \<in> set xs \<and> 0 < n x"
  by auto

lemma set_concat_replicate:
  "set (concat (map (\<lambda>i. replicate (n i) i) xs)) = {i \<in> set xs. 0 < n i}"
  by (rule set_eqI) (simp only: in_concat_replicate mem_Collect_eq)

lemma model_filter_selects:
  "engine_selects (model_filter M) (\<lambda>queryset. queryset) (\<lambda>args kws i. 0 < matches M args kws i)"
  unfolding engine_selects_def
proof (intro allI impI)
  fix queryset :: "model_instance list" and args kws filtered
  assume f: "model_filter M queryset args kws = Inr filtered"
  then have ok: "check_error M args kws = None"
    by (simp add: model_filter_def split: option.splits)
  with f have "filtered = concat (map (\<lambda>i. replicate (matches M args kws i) i) queryset)"
    by (simp add: model_filter_def)
  then have "set filtered = {r \<in> set queryset. 0 < matches M args kws r}"
    by (simp only: set_concat_replicate)
  moreover from ok have "\<exists>again. model_filter M filtered args kws = Inr again"
    by (simp add: model_filter_def)
  ultimately show "set filtered = {r \<in> set queryset. 0 < matches M args kws r}
      \<and> (\<exists>again. model_filter M filtered args kws = Inr again)"
    by (rule conjI)
qed

section \<open>Filtering by a single field\<close>




section \<open>Filtering by a tuple of fields\<close>




section \<open>Conjunction of the entries\<close>




section \<open>No lookup mapping\<close>

text \<open>
  C4. When neither the viewset nor its serializer class has a
  \<open>parent_lookup_kwargs\<close>, \<open>get_queryset\<close> returns the base queryset unchanged, as a
  normal result and not as an error.
\<close>

theorem get_queryset_no_mapping:
  assumes "parent_lookup_kwargs self = None"
    and "serializer_parent_lookup_kwargs self = None"
  shows "get_queryset queryset_filter self = Inr (base_queryset self)"
  using assms
  by (simp add: get_queryset_def resolve_parent_lookup_kwargs_def truthy_def)

theorem get_queryset_no_mapping_witness:
  "get_queryset (model_filter child_model)
     \<lparr>base_queryset = [child_a, child_b], parent_lookup_kwargs = None,
      serializer_parent_lookup_kwargs = None,
      kwargs = [''parent_pk'' \<mapsto> ''1'']\<rparr> = Inr [child_a, child_b]"
  using get_queryset_no_mapping
    [of "\<lparr>base_queryset = [child_a, child_b], parent_lookup_kwargs = None,
          serializer_parent_lookup_kwargs = None,
          kwargs = [''parent_pk'' \<mapsto> ''1'']\<rparr>" "model_filter child_model"]
  by simp

section \<open>Missing path parameters\<close>

text \<open>
  C5, as the code has it. \<open>get_queryset\<close> raises \<open>KeyError\<close> for a name only if that
  name is a key of the resolved lookup mapping and absent from the path parameters. When
  every field reference is a string or a non-empty tuple, \<open>get_queryset\<close> fails with
  a missing-parameter error if and only if some key of the mapping is absent from the
  path parameters, and the error is the \<open>KeyError\<close> of the first absent key in mapping
  order, whatever the engine would do: the result is that error alone, never a
  queryset.
\<close>

theorem get_queryset_missing_parameter:
  assumes "resolve_parent_lookup_kwargs self = Some m"
  shows "(get_queryset queryset_filter self = Inl (Own (KeyError p)) \<longrightarrow>
            p \<in> fst ` set m \<and> kwargs self p = None)
       \<and> (list_all supported (map snd m) \<longrightarrow>
            (get_queryset queryset_filter self = Inl (Own (KeyError p)))
              = (find (\<lambda>p. kwargs self p = None) (map fst m) = Some p)
          \<and> (\<exists>p. get_queryset queryset_filter self = Inl (Own (KeyError p)))
              = (\<exists>p \<in> fst ` set m. kwargs self p = None))"
proof (rule conjI; rule impI)
  assume "get_queryset queryset_filter self = Inl (Own (KeyError p))"
  then have "loop_error (kwargs self) m = Some (KeyError p)"
    by (simp add: get_queryset_KeyError [OF assms])
  then show "p \<in> fst ` set m \<and> kwargs self p = None"
    by (rule loop_error_KeyError)
next
  assume s: "list_all supported (map snd m)"
  have first: "(get_queryset queryset_filter self = Inl (Own (KeyError p')))
      = (find (\<lambda>p. kwargs self p = None) (map fst m) = Some p')" for p'
    by (auto simp: get_queryset_KeyError [OF assms] loop_error_supported [OF s])
  have "(\<exists>p. find (\<lambda>p. kwargs self p = None) (map fst m) = Some p)
      = (\<exists>p \<in> fst ` set m. kwargs self p = None)"
    using find_None_iff [of "\<lambda>p. kwargs self p = None" "map fst m"] by force
  with first show "(get_queryset queryset_filter self = Inl (Own (KeyError p)))
        = (find (\<lambda>p. kwargs self p = None) (map fst m) = Some p)
      \<and> (\<exists>p. get_queryset queryset_filter self = Inl (Own (KeyError p)))
        = (\<exists>p \<in> fst ` set m. kwargs self p = None)"
    by simp
qed

theorem get_queryset_missing_parameter_witness:
  "get_queryset (model_filter grand_child_model)
     \<lparr>base_queryset = [grand_child_first, grand_child_second, grand_child_fourth],
      parent_lookup_kwargs =
        Some [(''name'', FieldStr ''name''),
              (''parent_pk'', FieldTuple [''prefered_id'', ''roots__id'']),
              (''child_pk'', FieldStr ''id'')],
      serializer_parent_lookup_kwargs = None,
      kwargs = [''name'' \<mapsto> ''first'']\<rparr>
     = Inl (Own (KeyError ''parent_pk''))"
  using get_queryset_missing_parameter
    [of "\<lparr>base_queryset = [grand_child_first, grand_child_second, grand_child_fourth],
          parent_lookup_kwargs =
            Some [(''name'', FieldStr ''name''),
                  (''parent_pk'', FieldTuple [''prefered_id'', ''roots__id'']),
                  (''child_pk'', FieldStr ''id'')],
          serializer_parent_lookup_kwargs = None,
          kwargs = [''name'' \<mapsto> ''first'']\<rparr>"
        "[(''name'', FieldStr ''name''),
          (''parent_pk'', FieldTuple [''prefered_id'', ''roots__id'']),
          (''child_pk'', FieldStr ''id'')]"
        "model_filter grand_child_model" "''parent_pk''"]
  by (simp add: resolve_parent_lookup_kwargs_def truthy_def)

text \<open>
  With a set as field reference the store into \<open>orm_kwargs_filters\<close> raises
  \<open>TypeError\<close> before the later, absent parameter is looked up: a parameter of the
  mapping is absent and the failure is not the missing-parameter error.
\<close>

theorem get_queryset_missing_parameter_counterexample:
  "kwargs
     \<lparr>base_queryset = [grand_child_first, grand_child_second, grand_child_fourth],
      parent_lookup_kwargs =
        Some [(''parent_pk'', FieldSet {|''prefered_id'', ''roots__id''|}),
              (''child_pk'', FieldStr ''id'')],
      serializer_parent_lookup_kwargs = None,
      kwargs = [''parent_pk'' \<mapsto> ''1'']\<rparr> ''child_pk'' = None
   \<and> get_queryset (model_filter grand_child_model)
     \<lparr>base_queryset = [grand_child_first, grand_child_second, grand_child_fourth],
      parent_lookup_kwargs =
        Some [(''parent_pk'', FieldSet {|''prefered_id'', ''roots__id''|}),
              (''child_pk'', FieldStr ''id'')],
      serializer_parent_lookup_kwargs = None,
      kwargs = [''parent_pk'' \<mapsto> ''1'']\<rparr>
     = Inl (Own TypeError)"
  by (simp add: get_queryset_def resolve_parent_lookup_kwargs_def truthy_def kwargs_getitem_def)

section \<open>Precedence of the viewset's mapping\<close>

text \<open>
  C6, as the code has it. When the viewset defines a non-empty
  \<open>parent_lookup_kwargs\<close>, that mapping is the resolved one and the result does not
  depend on the serializer class's mapping; the serializer class's mapping is the
  resolved one when the viewset's is absent or empty.
\<close>

theorem viewset_mapping_precedence:
  "(\<forall>m. parent_lookup_kwargs self = Some m \<and> m \<noteq> [] \<longrightarrow>
        resolve_parent_lookup_kwargs self = Some m
      \<and> get_queryset queryset_filter (self\<lparr>serializer_parent_lookup_kwargs := s\<rparr>)
          = get_queryset queryset_filter self)
   \<and> (parent_lookup_kwargs self = None \<or> parent_lookup_kwargs self = Some [] \<longrightarrow>
        resolve_parent_lookup_kwargs self = serializer_parent_lookup_kwargs self)"
proof (intro conjI allI impI)
  fix m
  assume m: "parent_lookup_kwargs self = Some m \<and> m \<noteq> []"
  then show "resolve_parent_lookup_kwargs self = Some m"
    by (simp add: resolve_cases)
  from m show "get_queryset queryset_filter (self\<lparr>serializer_parent_lookup_kwargs := s\<rparr>)
      = get_queryset queryset_filter self"
    by (intro get_queryset_cong) (simp_all add: resolve_cases)
next
  assume "parent_lookup_kwargs self = None \<or> parent_lookup_kwargs self = Some []"
  then show "resolve_parent_lookup_kwargs self = serializer_parent_lookup_kwargs self"
    by (auto simp: resolve_cases)
qed

theorem viewset_mapping_precedence_witness:
  "get_queryset (model_filter grand_child_model)
     \<lparr>base_queryset = [grand_child_first, grand_child_second, grand_child_fourth],
      parent_lookup_kwargs = Some [(''parent_pk'', FieldTuple [''prefered_id'', ''roots__id''])],
      serializer_parent_lookup_kwargs = None,
      kwargs = [''parent_pk'' \<mapsto> ''2'']\<rparr>
   = get_queryset (model_filter grand_child_model)
     \<lparr>base_queryset = [grand_child_first, grand_child_second, grand_child_fourth],
      parent_lookup_kwargs = Some [(''parent_pk'', FieldTuple [''prefered_id'', ''roots__id''])],
      serializer_parent_lookup_kwargs = Some [(''parent_pk'', FieldStr ''parent__pk'')],
      kwargs = [''parent_pk'' \<mapsto> ''2'']\<rparr>
   \<and> resolve_parent_lookup_kwargs
     \<lparr>base_queryset = [grand_child_first, grand_child_second, grand_child_fourth],
      parent_lookup_kwargs = Some [(''parent_pk'', FieldTuple [''prefered_id'', ''roots__id''])],
      serializer_parent_lookup_kwargs = Some [(''parent_pk'', FieldStr ''parent__pk'')],
      kwargs = [''parent_pk'' \<mapsto> ''2'']\<rparr>
   = Some [(''parent_pk'', FieldTuple [''prefered_id'', ''roots__id''])]"
  using viewset_mapping_precedence
    [of "\<lparr>base_queryset = [grand_child_first, grand_child_second, grand_child_fourth],
          parent_lookup_kwargs = Some [(''parent_pk'', FieldTuple [''prefered_id'', ''roots__id''])],
          serializer_parent_lookup_kwargs = Some [(''parent_pk'', FieldStr ''parent__pk'')],
          kwargs = [''parent_pk'' \<mapsto> ''2'']\<rparr>" "model_filter grand_child_model" None]
  by simp

text \<open>
  A viewset that defines the empty mapping, with a serializer class that defines a
  non-empty one: the serializer's mapping is used, and the result differs from the one
  without a serializer mapping.
\<close>

theorem viewset_mapping_precedence_counterexample:
  "resolve_parent_lookup_kwargs
     \<lparr>base_queryset = [child_a, child_b],
      parent_lookup_kwargs = Some [],
      serializer_parent_lookup_kwargs = Some [(''parent_pk'', FieldStr ''parent__pk'')],
      kwargs = [''parent_pk'' \<mapsto> ''1'']\<rparr>
     = Some [(''parent_pk'', FieldStr ''parent__pk'')]
   \<and> get_queryset (model_filter child_model)
     \<lparr>base_queryset = [child_a, child_b],
      parent_lookup_kwargs = Some [],
      serializer_parent_lookup_kwargs = Some [(''parent_pk'', FieldStr ''parent__pk'')],
      kwargs = [''parent_pk'' \<mapsto> ''1'']\<rparr>
     = Inr [child_a]
   \<and> get_queryset (model_filter child_model)
     \<lparr>base_queryset = [child_a, child_b],
      parent_lookup_kwargs = Some [],
      serializer_parent_lookup_kwargs = None,
      kwargs = [''parent_pk'' \<mapsto> ''1'']\<rparr>
     = Inr [child_a, child_b]"
  by (simp add: get_queryset_def resolve_parent_lookup_kwargs_def truthy_def kwargs_getitem_def
      propagate_def engine_defs)

section \<open>Kinds of field reference\<close>




section \<open>Idempotence\<close>

text \<open>
  C8. On an engine that meets the contract of selecting records by the terms, applying
  \<open>get_queryset\<close> again to its own result, with the same lookup mapping and path
  parameters, succeeds and yields the same set of records as applying it once; the
  engine may repeat records, so the number of rows can differ.
\<close>

theorem get_queryset_idempotent:
  assumes "engine_selects queryset_filter rows selected"
    and "get_queryset queryset_filter self = Inr filtered"
  shows "\<exists>again. get_queryset queryset_filter (self\<lparr>base_queryset := filtered\<rparr>) = Inr again
           \<and> set (rows again) = set (rows filtered)"
proof (cases "resolve_parent_lookup_kwargs self")
  case None
  then have "resolve_parent_lookup_kwargs (self\<lparr>base_queryset := filtered\<rparr>) = None"
    by (simp add: resolve_cases split: option.splits if_splits)
  then show ?thesis
    by (simp add: get_queryset_unresolved)
next
  case (Some m)
  then have same: "resolve_parent_lookup_kwargs (self\<lparr>base_queryset := filtered\<rparr>) = Some m"
    by (simp add: resolve_cases split: option.splits if_splits)
  show ?thesis
  proof (cases "m = []")
    case True
    with same show ?thesis by (simp add: get_queryset_empty)
  next
    case False
    let ?args = "arg_terms (kwargs self) m"
    let ?kws = "setitems (kwargs_terms (kwargs self) m) Map.empty"
    from assms(2) have ok: "loop_error (kwargs self) m = None"
      and first: "queryset_filter (base_queryset self) ?args ?kws = Inr filtered"
      by (auto simp: get_queryset_closed_form [OF Some False] propagate_def
          split: option.splits sum.splits)
    from assms(1) first
    have sel: "set (rows filtered) = {r \<in> set (rows (base_queryset self)). selected ?args ?kws r}"
      and "\<exists>again. queryset_filter filtered ?args ?kws = Inr again"
      unfolding engine_selects_def by blast+
    then obtain again where again: "queryset_filter filtered ?args ?kws = Inr again"
      by blast
    with assms(1)
    have "set (rows again) = {r \<in> set (rows filtered). selected ?args ?kws r}"
      unfolding engine_selects_def by blast
    with sel have "set (rows again) = set (rows filtered)"
      by auto
    moreover have "get_queryset queryset_filter (self\<lparr>base_queryset := filtered\<rparr>) = Inr again"
      using ok again by (simp add: get_queryset_closed_form [OF same False] propagate_def)
    ultimately show ?thesis by blast
  qed
qed

theorem get_queryset_idempotent_witness:
  "get_queryset (model_filter grand_child_model)
     \<lparr>base_queryset = [grand_child_first, grand_child_fourth],
      parent_lookup_kwargs = Some [(''parent_pk'', FieldTuple [''prefered_id'', ''roots__id''])],
      serializer_parent_lookup_kwargs = None,
      kwargs = [''parent_pk'' \<mapsto> ''1'']\<rparr>
     = Inr [grand_child_first, grand_child_fourth, grand_child_fourth]
   \<and> (\<exists>again.
        get_queryset (model_filter grand_child_model)
          \<lparr>base_queryset = [grand_child_first, grand_child_fourth, grand_child_fourth],
           parent_lookup_kwargs = Some [(''parent_pk'', FieldTuple [''prefered_id'', ''roots__id''])],
           serializer_parent_lookup_kwargs = None,
           kwargs = [''parent_pk'' \<mapsto> ''1'']\<rparr>
          = Inr again
        \<and> set again = {grand_child_first, grand_child_fourth})"
proof -
  have first: "get_queryset (model_filter grand_child_model)
     \<lparr>base_queryset = [grand_child_first, grand_child_fourth],
      parent_lookup_kwargs = Some [(''parent_pk'', FieldTuple [''prefered_id'', ''roots__id''])],
      serializer_parent_lookup_kwargs = None,
      kwargs = [''parent_pk'' \<mapsto> ''1'']\<rparr>
     = Inr [grand_child_first, grand_child_fourth, grand_child_fourth]"
    by (simp add: get_queryset_def resolve_parent_lookup_kwargs_def truthy_def kwargs_getitem_def
        propagate_def engine_defs)
  from get_queryset_idempotent [OF model_filter_selects first] first
  show ?thesis by simp
qed

section \<open>An empty mapping on the viewset\<close>

text \<open>
  C9. When the viewset's \<open>parent_lookup_kwargs\<close> is the empty mapping, it is treated
  as absent: the serializer class's mapping is the resolved one, \<open>get_queryset\<close>
  behaves as for a viewset without the attribute, and when the serializer class's
  mapping is absent or empty too, the base queryset is returned unfiltered.
\<close>

theorem get_queryset_empty_viewset_mapping:
  assumes "parent_lookup_kwargs self = Some []"
  shows "resolve_parent_lookup_kwargs self = serializer_parent_lookup_kwargs self
       \<and> get_queryset queryset_filter self
           = get_queryset queryset_filter (self\<lparr>parent_lookup_kwargs := None\<rparr>)
       \<and> (serializer_parent_lookup_kwargs self = None
            \<or> serializer_parent_lookup_kwargs self = Some [] \<longrightarrow>
          get_queryset queryset_filter self = Inr (base_queryset self))"
proof (intro conjI impI)
  show r: "resolve_parent_lookup_kwargs self = serializer_parent_lookup_kwargs self"
    using assms by (simp add: resolve_cases)
  show "get_queryset queryset_filter self
      = get_queryset queryset_filter (self\<lparr>parent_lookup_kwargs := None\<rparr>)"
    using assms by (intro get_queryset_cong) (simp_all add: resolve_cases)
  assume "serializer_parent_lookup_kwargs self = None
      \<or> serializer_parent_lookup_kwargs self = Some []"
  with r show "get_queryset queryset_filter self = Inr (base_queryset self)"
    by (auto simp: get_queryset_unresolved get_queryset_empty)
qed

theorem get_queryset_empty_viewset_mapping_witness:
  "get_queryset (model_filter child_model)
     \<lparr>base_queryset = [child_a, child_b], parent_lookup_kwargs = Some [],
      serializer_parent_lookup_kwargs = Some [(''parent_pk'', FieldStr ''parent__pk'')],
      kwargs = [''parent_pk'' \<mapsto> ''2'']\<rparr>
     = Inr [child_b]
   \<and> get_queryset (model_filter child_model)
     \<lparr>base_queryset = [child_a, child_b], parent_lookup_kwargs = Some [],
      serializer_parent_lookup_kwargs = Some [],
      kwargs = [''parent_pk'' \<mapsto> ''2'']\<rparr>
     = Inr [child_a, child_b]"
  using get_queryset_empty_viewset_mapping
    [of "\<lparr>base_queryset = [child_a, child_b], parent_lookup_kwargs = Some [],
          serializer_parent_lookup_kwargs = Some [(''parent_pk'', FieldStr ''parent__pk'')],
          kwargs = [''parent_pk'' \<mapsto> ''2'']\<rparr>" "model_filter child_model"]
    get_queryset_empty_viewset_mapping
    [of "\<lparr>base_queryset = [child_a, child_b], parent_lookup_kwargs = Some [],
          serializer_parent_lookup_kwargs = Some [],
          kwargs = [''parent_pk'' \<mapsto> ''2'']\<rparr>" "model_filter child_model"]
  by (simp add: get_queryset_def resolve_parent_lookup_kwargs_def truthy_def kwargs_getitem_def
      propagate_def engine_defs)

section \<open>Two entries with the same field path\<close>



end
